theory Spec2Isabelle
  imports Complex_Main
begin

section \<open>The retention page: \<^verbatim>\<open>src/pages/rentention/app.py\<close>\<close>

text \<open>
  The page computes two tables from an Elasticsearch event index: a 14-point retention
  series (\<^verbatim>\<open>calculate_retention\<close>) and a daily funnel (\<^verbatim>\<open>calculate_funnel\<close>).
  Everything the two functions take from outside is an explicit argument of the model:
  the search client, the readings of the wall clock, and the two library conversions
  between calendar days and text.
\<close>

subsection \<open>Exceptions\<close>

text \<open>
  The exceptions that can leave the two functions. \<open>TransportError\<close> stands for whatever
  \<^verbatim>\<open>client.search\<close> raises when the index does not answer.
\<close>

datatype error =
    OverflowError
  | ZeroDivisionError
  | AttributeError
  | ValueError
  | TransportError

text \<open>Sequencing of two steps, the first of which may raise.\<close>

definition and_then :: "error + 'a \<Rightarrow> ('a \<Rightarrow> error + 'b) \<Rightarrow> error + 'b" where
  "and_then m f = (case m of Inl e \<Rightarrow> Inl e | Inr x \<Rightarrow> f x)"

subsection \<open>Python's \<^verbatim>\<open>datetime\<close> and \<^verbatim>\<open>timedelta\<close>\<close>

text \<open>
  A \<^verbatim>\<open>datetime\<close> in the fixed zone Asia/Shanghai (\<^verbatim>\<open>timezone\<close>, line 9) is a calendar day
  and a time of day. The calendar day is kept as its proleptic Gregorian ordinal
  (\<^verbatim>\<open>date.toordinal()\<close>: day 1 is 0001-01-01, day 3652059 is 9999-12-31), the time of day
  in microseconds since midnight. The zone has a constant offset of eight hours, so
  adding whole days moves the ordinal and leaves the time of day alone.
\<close>

record datetime =
  ordinal :: int
  time_of_day :: nat

text \<open>\<^verbatim>\<open>timedelta(days=n)\<close> raises OverflowError beyond 999999999 days either way.\<close>

definition timedelta :: "int \<Rightarrow> error + int" where
  "timedelta days =
     (if - 999999999 \<le> days \<and> days \<le> 999999999 then Inr days else Inl OverflowError)"

text \<open>
  \<^verbatim>\<open>dt + delta\<close> and \<^verbatim>\<open>dt - delta\<close> raise OverflowError when the resulting day is not
  between 0001-01-01 and 9999-12-31.
\<close>

definition datetime_add :: "datetime \<Rightarrow> int \<Rightarrow> error + datetime" where
  "datetime_add dt delta =
     (let d = ordinal dt + delta
      in if 1 \<le> d \<and> d \<le> 3652059 then Inr (dt\<lparr>ordinal := d\<rparr>) else Inl OverflowError)"

definition datetime_sub :: "datetime \<Rightarrow> int \<Rightarrow> error + datetime" where
  "datetime_sub dt delta = datetime_add dt (- delta)"

text \<open>
  Python's true division of two lengths: it raises on a zero divisor. The quotient is
  kept as the rational it denotes (Python rounds it to the nearest double).
\<close>

definition truediv :: "nat \<Rightarrow> nat \<Rightarrow> error + rat" where
  "truediv a b = (if b = 0 then Inl ZeroDivisionError else Inr (of_nat a / of_nat b))"

subsection \<open>The search client\<close>

text \<open>The request body of \<^verbatim>\<open>get_unique_user_ids\<close> (lines 18-46), field by field.\<close>

record terms_body =
  terms_index :: string
  timestamp_gte :: string
  timestamp_lt :: string
  timestamp_time_zone :: string
  message_name_keyword :: string
  hits_size :: nat
  terms_field :: string
  terms_size :: nat

text \<open>One bucket of the \<^verbatim>\<open>unique_userIds\<close> terms aggregation.\<close>

record term_bucket =
  key :: int
  doc_count :: nat

text \<open>The three filtered cardinality sub-aggregations of the funnel query.\<close>

datatype filter_clause =
    RangeGte string int
  | RangeGt string int
  | Term string string

record sub_aggregation =
  agg_name :: string
  agg_filter :: filter_clause
  cardinality_field :: string

text \<open>The request body of \<^verbatim>\<open>search_funnel\<close> (lines 97-141).\<close>

record histogram_body =
  histogram_index :: string
  histogram_hits_size :: nat
  range_gte :: datetime
  range_lte :: datetime
  histogram_field :: string
  calendar_interval :: string
  histogram_time_zone :: string
  sub_aggregations :: "sub_aggregation list"

text \<open>
  One bucket of the \<^verbatim>\<open>by_day\<close> histogram: its \<^verbatim>\<open>key_as_string\<close> and the \<^verbatim>\<open>value\<close> of the
  \<^verbatim>\<open>unique_visitorId\<close> cardinality under each of the three filters.
\<close>

record day_bucket =
  key_as_string :: string
  userId_all :: int
  userId_not_0 :: int
  new_sign_up :: int

text \<open>
  What the page takes from its libraries and from the index:
  \<^item> \<open>strftime_ymd\<close>: \<^verbatim>\<open>strftime("%Y-%m-%d")\<close>, the text of a calendar day;
  \<^item> \<open>to_datetime\<close>: \<^verbatim>\<open>pd.to_datetime\<close> on a whole column of text, in one call: \<open>None\<close>
    when the call raises (it reads the column as a whole, so a key that parses alone
    may make it raise next to keys of another format), otherwise one entry for each
    value, \<open>None\<close> for NaT;
  \<^item> \<open>search_terms\<close> and \<open>search_histogram\<close>: \<^verbatim>\<open>client.search\<close> on the two request
    shapes, returning the buckets of the response, \<open>None\<close> when the call raises.
\<close>

record env =
  strftime_ymd :: "int \<Rightarrow> string"
  to_datetime :: "string list \<Rightarrow> datetime option list option"
  search_terms :: "terms_body \<Rightarrow> term_bucket list option"
  search_histogram :: "histogram_body \<Rightarrow> day_bucket list option"

subsection \<open>\<^verbatim>\<open>get_unique_user_ids\<close> (lines 16-48)\<close>

definition unique_user_ids_body :: "string \<Rightarrow> string \<Rightarrow> terms_body" where
  "unique_user_ids_body date message_name =
     \<lparr>terms_index = ''monitor-prod-20*'',
      timestamp_gte = date @ ''T00:00:00'',
      timestamp_lt = date @ ''T23:59:59'',
      timestamp_time_zone = ''+08:00'',
      message_name_keyword = message_name,
      hits_size = 0,
      terms_field = ''message.userId'',
      terms_size = 10000\<rparr>"

text \<open>
  The function is memoised for an hour by \<^verbatim>\<open>st.cache_data\<close>, keyed by its two arguments.
  The client of the model answers a request the same way whenever it is asked, so the
  memo is not visible and the model asks the client each time.
\<close>

definition get_unique_user_ids :: "env \<Rightarrow> string \<Rightarrow> string \<Rightarrow> error + int set" where
  "get_unique_user_ids e date message_name =
     (case search_terms e (unique_user_ids_body date message_name) of
        None \<Rightarrow> Inl TransportError
      | Some response \<Rightarrow> Inr (set (map key response)))"

subsection \<open>\<^verbatim>\<open>calculate_retention\<close> (lines 52-89)\<close>

text \<open>
  The body of the loop for one value of \<open>i\<close> (lines 57-79): the text of the acquisition
  day, the retention rate and the retention count that the iteration appends to its
  three lists. \<open>now i\<close> is what \<^verbatim>\<open>datetime.now(timezone)\<close> returns in that iteration.
\<close>

definition cohort_point ::
  "env \<Rightarrow> (nat \<Rightarrow> datetime) \<Rightarrow> int \<Rightarrow> nat \<Rightarrow> error + (string \<times> rat \<times> nat)" where
  "cohort_point e now interval_days i =
     and_then (timedelta (int i + interval_days - 1)) (\<lambda>delta.
     and_then (datetime_sub (now i) delta) (\<lambda>day.
     and_then (timedelta interval_days) (\<lambda>interval.
     and_then (datetime_add day interval) (\<lambda>next_day.
       let day_str = strftime_ymd e (ordinal day);
           next_day_str = strftime_ymd e (ordinal next_day)
       in
     and_then (get_unique_user_ids e day_str ''backend-sign_up'') (\<lambda>unique_userIds.
     and_then (get_unique_user_ids e next_day_str ''root'') (\<lambda>unique_userIds_after_interval.
     and_then
       (if unique_userIds \<noteq> {}
        then truediv (card (unique_userIds_after_interval \<inter> unique_userIds))
               (card unique_userIds)
        else Inr 0) (\<lambda>retention_rate.
       Inr (day_str, retention_rate,
            card (unique_userIds_after_interval \<inter> unique_userIds)))))))))"

text \<open>The three lists the loop fills, under their names in the source.\<close>

record retention_lists =
  rentention_count :: "nat list"
  retention_rates :: "rat list"
  dates :: "string list"

fun retention_loop ::
  "env \<Rightarrow> (nat \<Rightarrow> datetime) \<Rightarrow> int \<Rightarrow> nat list \<Rightarrow> retention_lists
     \<Rightarrow> error + retention_lists" where
  "retention_loop e now interval_days [] acc = Inr acc"
| "retention_loop e now interval_days (i # rest) acc =
     and_then (cohort_point e now interval_days i) (\<lambda>(day_str, retention_rate, n).
       retention_loop e now interval_days rest
         \<lparr>rentention_count = rentention_count acc @ [n],
          retention_rates = retention_rates acc @ [retention_rate],
          dates = dates acc @ [day_str]\<rparr>)"

text \<open>The returned DataFrame, one list per column.\<close>

record retention_df =
  Date :: "string list"
  Retention_Rate :: "rat list"
  retention_count :: "nat list"

definition calculate_retention ::
  "env \<Rightarrow> (nat \<Rightarrow> datetime) \<Rightarrow> int \<Rightarrow> error + retention_df" where
  "calculate_retention e now interval_days =
     and_then
       (retention_loop e now interval_days [1..<15]
          \<lparr>rentention_count = [], retention_rates = [], dates = []\<rparr>) (\<lambda>acc.
       Inr \<lparr>Date = rev (dates acc),
            Retention_Rate = rev (retention_rates acc),
            retention_count = rev (rentention_count acc)\<rparr>)"

subsection \<open>\<^verbatim>\<open>search_funnel\<close> (lines 92-145)\<close>

text \<open>The local \<^verbatim>\<open>query\<close>, built from one reading \<open>now\<close> of the clock.\<close>

definition search_funnel_query :: "datetime \<Rightarrow> error + histogram_body" where
  "search_funnel_query now =
     and_then (timedelta 1) (\<lambda>one_day.
     and_then (datetime_sub now one_day) (\<lambda>end_date.
     and_then (timedelta (14 - 1)) (\<lambda>span.
     and_then (datetime_sub end_date span) (\<lambda>start_date.
       Inr \<lparr>histogram_index = ''monitor-prod-20*'',
            histogram_hits_size = 0,
            range_gte = start_date,
            range_lte = end_date,
            histogram_field = ''@timestamp'',
            calendar_interval = ''day'',
            histogram_time_zone = ''+08:00'',
            sub_aggregations =
              [\<lparr>agg_name = ''userId_all'',
                agg_filter = RangeGte ''message.userId'' 0,
                cardinality_field = ''message.visitorId.keyword''\<rparr>,
               \<lparr>agg_name = ''userId_not_0'',
                agg_filter = RangeGt ''message.userId'' 0,
                cardinality_field = ''message.visitorId.keyword''\<rparr>,
               \<lparr>agg_name = ''new_sign_up'',
                agg_filter = Term ''message.name.keyword'' ''backend-sign_up'',
                cardinality_field = ''message.userId''\<rparr>]\<rparr>))))"

text \<open>
  The response is kept as the list \<^verbatim>\<open>response["aggregations"]["by_day"]["buckets"]\<close>
  that \<^verbatim>\<open>calculate_funnel\<close> reads from it. \<open>now\<close> is the reading of the clock in the
  call that is not served from the one-hour memo.
\<close>

definition search_funnel :: "env \<Rightarrow> datetime \<Rightarrow> error + day_bucket list" where
  "search_funnel e now =
     and_then (search_funnel_query now) (\<lambda>query.
       case search_histogram e query of
         None \<Rightarrow> Inl TransportError
       | Some response \<Rightarrow> Inr response)"

subsection \<open>\<^verbatim>\<open>calculate_funnel\<close> (lines 148-177)\<close>

text \<open>
  A row of the returned DataFrame. \<open>None\<close> in the \<^verbatim>\<open>date\<close> column is pandas' NaT. The
  last column is created as \<^verbatim>\<open>rentention_1d\<close> (line 168) and relabelled
  \<^verbatim>\<open>retention_count\<close> by the assignment to \<^verbatim>\<open>df.columns\<close>; \<open>None\<close> in it is NaN.
\<close>

record funnel_row =
  date :: "datetime option"
  all_visitor_count :: int
  all_registered_count :: int
  all_sign_up_count :: int
  rentention_1d :: "nat option"

text \<open>
  \<^verbatim>\<open>df[col] = series\<close> aligns the series with the frame on the row label: row \<open>k\<close>
  takes the entry labelled \<open>k\<close>, and nothing where the series has none.
\<close>

definition series_at :: "'a list \<Rightarrow> nat \<Rightarrow> 'a option" where
  "series_at series k = (if k < length series then Some (series ! k) else None)"

text \<open>
  \<open>data\<close> is the list of dicts of lines 152-165, each dict a tuple of its four values.
  With no bucket the frame of line 167 has no column at all, and reading \<^verbatim>\<open>df.date\<close>
  on line 169 raises AttributeError. Otherwise line 169 hands the whole \<^verbatim>\<open>date\<close> column
  to \<^verbatim>\<open>pd.to_datetime\<close> in one call and assigns the result back, by row label as well:
  a row without an entry would hold NaT.
\<close>

definition calculate_funnel ::
  "env \<Rightarrow> datetime \<Rightarrow> (nat \<Rightarrow> datetime) \<Rightarrow> error + funnel_row list" where
  "calculate_funnel e now_funnel now =
     and_then (search_funnel e now_funnel) (\<lambda>response.
       let data = map (\<lambda>bucket. (key_as_string bucket, userId_all bucket,
                                 userId_not_0 bucket, new_sign_up bucket)) response
       in
     and_then (calculate_retention e now 1) (\<lambda>retention.
       if data = [] then Inl AttributeError
       else
     and_then (case to_datetime e (map fst data) of
                 None \<Rightarrow> Inl ValueError
               | Some column \<Rightarrow> Inr column) (\<lambda>timestamps.
       Inr (map (\<lambda>(k, (d, visitors, registered, sign_ups)).
                  \<lparr>date = (case series_at timestamps k of None \<Rightarrow> None | Some t \<Rightarrow> t),
                   all_visitor_count = visitors,
                   all_registered_count = registered,
                   all_sign_up_count = sign_ups,
                   rentention_1d = series_at (retention_count retention) k\<rparr>)
              (zip [0..<length data] data)))))"

subsection \<open>Quantities the statements below speak about\<close>

text \<open>
  The calendar day of \<^verbatim>\<open>day\<close> in iteration \<open>i\<close> (line 57), as an ordinal: the day read
  from the clock, moved back by \<open>i + interval_days - 1\<close> days.
\<close>

definition acquisition_day :: "(nat \<Rightarrow> datetime) \<Rightarrow> int \<Rightarrow> nat \<Rightarrow> int" where
  "acquisition_day now n i = ordinal (now i) - (int i + n - 1)"

text \<open>
  Iteration \<open>i\<close> raises no OverflowError: both \<^verbatim>\<open>timedelta\<close>s can be built, and \<^verbatim>\<open>day\<close> and
  \<^verbatim>\<open>next_day\<close> are days of the years 1 to 9999.
\<close>

definition days_in_range :: "(nat \<Rightarrow> datetime) \<Rightarrow> int \<Rightarrow> nat \<Rightarrow> bool" where
  "days_in_range now n i \<longleftrightarrow>
     - 999999999 \<le> int i + n - 1 \<and> int i + n - 1 \<le> 999999999 \<and>
     1 \<le> acquisition_day now n i \<and> acquisition_day now n i \<le> 3652059 \<and>
     - 999999999 \<le> n \<and> n \<le> 999999999 \<and>
     1 \<le> acquisition_day now n i + n \<and> acquisition_day now n i + n \<le> 3652059"

text \<open>
  The results of a step on the elements of a list, taken in order up to the first
  raise: what the loop collects over its offsets.
\<close>

fun for_each :: "('a \<Rightarrow> error + 'b) \<Rightarrow> 'a list \<Rightarrow> error + 'b list" where
  "for_each f [] = Inr []"
| "for_each f (x # xs) =
     and_then (f x) (\<lambda>y. and_then (for_each f xs) (\<lambda>ys. Inr (y # ys)))"

text \<open>The three lists after the loop has appended the points \<open>ps\<close>.\<close>

definition extend :: "retention_lists \<Rightarrow> (string \<times> rat \<times> nat) list \<Rightarrow> retention_lists" where
  "extend acc ps =
     \<lparr>rentention_count = rentention_count acc @ map (\<lambda>p. snd (snd p)) ps,
      retention_rates = retention_rates acc @ map (\<lambda>p. fst (snd p)) ps,
      dates = dates acc @ map fst ps\<rparr>"

text \<open>Row \<open>k\<close> of the frame that \<^verbatim>\<open>calculate_funnel\<close> returns.\<close>

definition funnel_row_of ::
  "day_bucket list \<Rightarrow> datetime option list \<Rightarrow> nat list \<Rightarrow> nat \<Rightarrow> funnel_row" where
  "funnel_row_of buckets timestamps series k =
     \<lparr>date = (case series_at timestamps k of None \<Rightarrow> None | Some t \<Rightarrow> t),
      all_visitor_count = userId_all (buckets ! k),
      all_registered_count = userId_not_0 (buckets ! k),
      all_sign_up_count = new_sign_up (buckets ! k),
      rentention_1d = series_at series k\<rparr>"

subsection \<open>A sample index\<close>

text \<open>
  A small index on which the theorems below are instantiated. The clock stands at
  2026-11-03 (ordinal 739923). Two users signed up on 2026-10-20 and one of them was
  active the day after; three users signed up on 2026-11-01 and two of them were active
  the day after, next to a user who had not signed up that day.
\<close>

definition two_digits :: "int \<Rightarrow> string" where
  "two_digits n = [''0123456789'' ! nat (n div 10), ''0123456789'' ! nat (n mod 10)]"

text \<open>The text of a day of October or November 2026.\<close>

definition autumn_2026_ymd :: "int \<Rightarrow> string" where
  "autumn_2026_ymd d =
     (if 739890 \<le> d \<and> d \<le> 739920 then ''2026-10-'' @ two_digits (d - 739889)
      else if 739921 \<le> d \<and> d \<le> 739950 then ''2026-11-'' @ two_digits (d - 739920)
      else ''another season'')"

definition users :: "int list \<Rightarrow> term_bucket list" where
  "users ks = map (\<lambda>k. \<lparr>key = k, doc_count = 1\<rparr>) ks"

definition sample_search_terms :: "terms_body \<Rightarrow> term_bucket list option" where
  "sample_search_terms body =
     Some (if message_name_keyword body = ''backend-sign_up'' \<and>
              timestamp_gte body = ''2026-10-20T00:00:00'' then users [1, 2]
           else if message_name_keyword body = ''root'' \<and>
              timestamp_gte body = ''2026-10-21T00:00:00'' then users [2]
           else if message_name_keyword body = ''backend-sign_up'' \<and>
              timestamp_gte body = ''2026-11-01T00:00:00'' then users [1, 2, 3]
           else if message_name_keyword body = ''root'' \<and>
              timestamp_gte body = ''2026-11-02T00:00:00'' then users [2, 3, 4]
           else [])"

text \<open>
  Fourteen daily buckets. The one of 2026-10-25 reports more registered visitors than
  visitors, as two cardinality estimates may.
\<close>

definition sample_buckets :: "day_bucket list" where
  "sample_buckets =
     [\<lparr>key_as_string = ''2026-10-20T00:00:00.000+08:00'', userId_all = 120,
       userId_not_0 = 45, new_sign_up = 2\<rparr>,
      \<lparr>key_as_string = ''2026-10-21T00:00:00.000+08:00'', userId_all = 131,
       userId_not_0 = 50, new_sign_up = 0\<rparr>,
      \<lparr>key_as_string = ''2026-10-22T00:00:00.000+08:00'', userId_all = 98,
       userId_not_0 = 39, new_sign_up = 0\<rparr>,
      \<lparr>key_as_string = ''2026-10-23T00:00:00.000+08:00'', userId_all = 102,
       userId_not_0 = 41, new_sign_up = 0\<rparr>,
      \<lparr>key_as_string = ''2026-10-24T00:00:00.000+08:00'', userId_all = 140,
       userId_not_0 = 60, new_sign_up = 0\<rparr>,
      \<lparr>key_as_string = ''2026-10-25T00:00:00.000+08:00'', userId_all = 40,
       userId_not_0 = 41, new_sign_up = 0\<rparr>,
      \<lparr>key_as_string = ''2026-10-26T00:00:00.000+08:00'', userId_all = 133,
       userId_not_0 = 52, new_sign_up = 0\<rparr>,
      \<lparr>key_as_string = ''2026-10-27T00:00:00.000+08:00'', userId_all = 127,
       userId_not_0 = 47, new_sign_up = 0\<rparr>,
      \<lparr>key_as_string = ''2026-10-28T00:00:00.000+08:00'', userId_all = 119,
       userId_not_0 = 44, new_sign_up = 0\<rparr>,
      \<lparr>key_as_string = ''2026-10-29T00:00:00.000+08:00'', userId_all = 101,
       userId_not_0 = 38, new_sign_up = 0\<rparr>,
      \<lparr>key_as_string = ''2026-10-30T00:00:00.000+08:00'', userId_all = 95,
       userId_not_0 = 36, new_sign_up = 0\<rparr>,
      \<lparr>key_as_string = ''2026-10-31T00:00:00.000+08:00'', userId_all = 150,
       userId_not_0 = 61, new_sign_up = 0\<rparr>,
      \<lparr>key_as_string = ''2026-11-01T00:00:00.000+08:00'', userId_all = 162,
       userId_not_0 = 66, new_sign_up = 3\<rparr>,
      \<lparr>key_as_string = ''2026-11-02T00:00:00.000+08:00'', userId_all = 158,
       userId_not_0 = 63, new_sign_up = 0\<rparr>]"

definition sample_timestamps :: "(string \<times> datetime) list" where
  "sample_timestamps =
     [(''2026-10-20T00:00:00.000+08:00'', \<lparr>ordinal = 739909, time_of_day = 0\<rparr>),
      (''2026-10-21T00:00:00.000+08:00'', \<lparr>ordinal = 739910, time_of_day = 0\<rparr>),
      (''2026-10-22T00:00:00.000+08:00'', \<lparr>ordinal = 739911, time_of_day = 0\<rparr>),
      (''2026-10-23T00:00:00.000+08:00'', \<lparr>ordinal = 739912, time_of_day = 0\<rparr>),
      (''2026-10-24T00:00:00.000+08:00'', \<lparr>ordinal = 739913, time_of_day = 0\<rparr>),
      (''2026-10-25T00:00:00.000+08:00'', \<lparr>ordinal = 739914, time_of_day = 0\<rparr>),
      (''2026-10-26T00:00:00.000+08:00'', \<lparr>ordinal = 739915, time_of_day = 0\<rparr>),
      (''2026-10-27T00:00:00.000+08:00'', \<lparr>ordinal = 739916, time_of_day = 0\<rparr>),
      (''2026-10-28T00:00:00.000+08:00'', \<lparr>ordinal = 739917, time_of_day = 0\<rparr>),
      (''2026-10-29T00:00:00.000+08:00'', \<lparr>ordinal = 739918, time_of_day = 0\<rparr>),
      (''2026-10-30T00:00:00.000+08:00'', \<lparr>ordinal = 739919, time_of_day = 0\<rparr>),
      (''2026-10-31T00:00:00.000+08:00'', \<lparr>ordinal = 739920, time_of_day = 0\<rparr>),
      (''2026-11-01T00:00:00.000+08:00'', \<lparr>ordinal = 739921, time_of_day = 0\<rparr>),
      (''2026-11-02T00:00:00.000+08:00'', \<lparr>ordinal = 739922, time_of_day = 0\<rparr>)]"

text \<open>
  The sample parser reads a column in one of two formats, the keys of the histogram
  above or plain days, and an empty text as NaT. A column that mixes the two formats,
  or holds any other text, makes it raise.
\<close>

definition sample_days :: "(string \<times> datetime) list" where
  "sample_days =
     [(''2026-11-01'', \<lparr>ordinal = 739921, time_of_day = 0\<rparr>),
      (''2026-11-02'', \<lparr>ordinal = 739922, time_of_day = 0\<rparr>)]"

definition sample_to_datetime :: "string list \<Rightarrow> datetime option list option" where
  "sample_to_datetime keys =
     (if list_all (\<lambda>k. k = [] \<or> map_of sample_timestamps k \<noteq> None) keys
      then Some (map (map_of sample_timestamps) keys)
      else if list_all (\<lambda>k. k = [] \<or> map_of sample_days k \<noteq> None) keys
      then Some (map (map_of sample_days) keys)
      else None)"

definition sample_env :: env where
  "sample_env =
     \<lparr>strftime_ymd = autumn_2026_ymd,
      to_datetime = sample_to_datetime,
      search_terms = sample_search_terms,
      search_histogram = (\<lambda>query. Some sample_buckets)\<rparr>"

text \<open>The same index when its histogram holds the three most recent days only.\<close>

definition sparse_env :: env where
  "sparse_env = sample_env\<lparr>search_histogram := (\<lambda>query. Some (drop 11 sample_buckets))\<rparr>"

text \<open>The same index when its histogram holds two days with keys of different formats.\<close>

definition mixed_env :: env where
  "mixed_env =
     sample_env\<lparr>search_histogram := (\<lambda>query.
       Some [\<lparr>key_as_string = ''2026-11-01T00:00:00.000+08:00'', userId_all = 162,
              userId_not_0 = 66, new_sign_up = 3\<rparr>,
             \<lparr>key_as_string = ''2026-11-02'', userId_all = 158,
              userId_not_0 = 63, new_sign_up = 0\<rparr>])\<rparr>"

text \<open>The same index when it lists the buckets of every terms aggregation backwards.\<close>

definition reversed_env :: env where
  "reversed_env =
     sample_env\<lparr>search_terms := (\<lambda>body. map_option rev (sample_search_terms body))\<rparr>"

text \<open>Two clocks on 2026-11-03, and the reading of \<^verbatim>\<open>search_funnel\<close>.\<close>

definition sample_now :: "nat \<Rightarrow> datetime" where
  "sample_now i = \<lparr>ordinal = 739923, time_of_day = i\<rparr>"

definition later_now :: "nat \<Rightarrow> datetime" where
  "later_now i = \<lparr>ordinal = 739923, time_of_day = 5000 + 2 * i\<rparr>"

text \<open>
  A clock that passes midnight during the loop: five readings late on 2026-11-03, the
  other nine early on 2026-11-04.
\<close>

definition crossing_now :: "nat \<Rightarrow> datetime" where
  "crossing_now i =
     (if i \<le> 5 then \<lparr>ordinal = 739923, time_of_day = 86399999990 + i\<rparr>
      else \<lparr>ordinal = 739924, time_of_day = i\<rparr>)"

definition sample_now_funnel :: datetime where
  "sample_now_funnel = \<lparr>ordinal = 739923, time_of_day = 0\<rparr>"

text \<open>The retention series of the sample index for an interval of one day.\<close>

definition sample_series :: retention_df where
  "sample_series =
     \<lparr>Date = [''2026-10-20'', ''2026-10-21'', ''2026-10-22'', ''2026-10-23'',
               ''2026-10-24'', ''2026-10-25'', ''2026-10-26'', ''2026-10-27'',
               ''2026-10-28'', ''2026-10-29'', ''2026-10-30'', ''2026-10-31'',
               ''2026-11-01'', ''2026-11-02''],
      Retention_Rate = [1 / 2, 0, 0, 0, 0, 0, 0, 0, 0, 0, 0, 0, 2 / 3, 0],
      retention_count = [1, 0, 0, 0, 0, 0, 0, 0, 0, 0, 0, 0, 2, 0]\<rparr>"

text \<open>The series that the crossing clock gives for an interval of one day.\<close>

definition crossing_series :: retention_df where
  "crossing_series =
     \<lparr>Date = [''2026-10-21'', ''2026-10-22'', ''2026-10-23'', ''2026-10-24'',
               ''2026-10-25'', ''2026-10-26'', ''2026-10-27'', ''2026-10-28'',
               ''2026-10-29'', ''2026-10-29'', ''2026-10-30'', ''2026-10-31'',
               ''2026-11-01'', ''2026-11-02''],
      Retention_Rate = [0, 0, 0, 0, 0, 0, 0, 0, 0, 0, 0, 0, 2 / 3, 0],
      retention_count = [0, 0, 0, 0, 0, 0, 0, 0, 0, 0, 0, 0, 2, 0]\<rparr>"

section \<open>Auxiliary facts\<close>

lemma and_then_Inl [simp]: "and_then (Inl err) f = Inl err"
  by (simp add: and_then_def)

lemma and_then_Inr [simp]: "and_then (Inr x) f = f x"
  by (simp add: and_then_def)

lemma and_then_eq_Inr:
  "and_then m f = Inr y \<longleftrightarrow> (\<exists>x. m = Inr x \<and> f x = Inr y)"
  by (cases m) simp_all

lemma for_each_eq_Inr:
  "for_each f xs = Inr ys \<longleftrightarrow>
     length ys = length xs \<and> (\<forall>j<length xs. f (xs ! j) = Inr (ys ! j))"
proof (induction xs arbitrary: ys)
  case Nil
  then show ?case by auto
next
  case (Cons x xs)
  show ?case
  proof (cases ys)
    case Nil
    then show ?thesis by (auto simp: and_then_eq_Inr)
  next
    case (Cons y ys')
    then show ?thesis
      using Cons.IH [of ys']
      by (auto simp: and_then_eq_Inr nth_Cons split: nat.splits)
  qed
qed

lemma retention_loop_eq_Inr:
  "retention_loop e now n is acc = Inr acc' \<longleftrightarrow>
     (\<exists>ps. for_each (cohort_point e now n) is = Inr ps \<and> acc' = extend acc ps)"
proof (induction "is" arbitrary: acc)
  case Nil
  then show ?case by (auto simp: extend_def)
next
  case (Cons i rest)
  show ?case
    by (auto simp: and_then_eq_Inr Cons.IH extend_def split: prod.splits)
qed

lemma get_unique_user_ids_finite:
  "get_unique_user_ids e d m = Inr u \<Longrightarrow> finite u"
  by (auto simp: get_unique_user_ids_def split: option.splits)

lemma cohort_point_unfold:
  "cohort_point e now n i =
     (if \<not> days_in_range now n i then Inl OverflowError
      else case get_unique_user_ids e (strftime_ymd e (acquisition_day now n i)) ''backend-sign_up'' of
        Inl err \<Rightarrow> Inl err
      | Inr u \<Rightarrow>
         (case get_unique_user_ids e (strftime_ymd e (acquisition_day now n i + n)) ''root'' of
            Inl err \<Rightarrow> Inl err
          | Inr a \<Rightarrow>
              Inr (strftime_ymd e (acquisition_day now n i),
                   if u = {} then 0 else of_nat (card (a \<inter> u)) / of_nat (card u),
                   card (a \<inter> u))))"
proof (cases "days_in_range now n i")
  case False
  let ?day = "acquisition_day now n i"
  let ?A = "- 999999999 \<le> int i + n - 1 \<and> int i + n - 1 \<le> 999999999"
  let ?B = "1 \<le> ?day \<and> ?day \<le> 3652059"
  let ?C = "- 999999999 \<le> n \<and> n \<le> 999999999"
  let ?D = "1 \<le> ?day + n \<and> ?day + n \<le> 3652059"
  from False consider "\<not> ?A" | "?A" "\<not> ?B" | "?A" "?B" "\<not> ?C" | "?A" "?B" "?C" "\<not> ?D"
    unfolding days_in_range_def by blast
  then have "cohort_point e now n i = Inl OverflowError"
  proof cases
    case 1
    then have "timedelta (int i + n - 1) = Inl OverflowError"
      by (simp add: timedelta_def)
    then show ?thesis by (simp add: cohort_point_def)
  next
    case 2
    then have "timedelta (int i + n - 1) = Inr (int i + n - 1)"
      and "datetime_sub (now i) (int i + n - 1) = Inl OverflowError"
      by (simp_all add: timedelta_def datetime_sub_def datetime_add_def acquisition_day_def)
    then show ?thesis by (simp add: cohort_point_def)
  next
    case 3
    then have "timedelta (int i + n - 1) = Inr (int i + n - 1)"
      and "datetime_sub (now i) (int i + n - 1) = Inr ((now i)\<lparr>ordinal := ?day\<rparr>)"
      and "timedelta n = Inl OverflowError"
      by (simp_all add: timedelta_def datetime_sub_def datetime_add_def acquisition_day_def)
    then show ?thesis by (simp add: cohort_point_def)
  next
    case 4
    then have "timedelta (int i + n - 1) = Inr (int i + n - 1)"
      and "datetime_sub (now i) (int i + n - 1) = Inr ((now i)\<lparr>ordinal := ?day\<rparr>)"
      and "timedelta n = Inr n"
      and "datetime_add ((now i)\<lparr>ordinal := ?day\<rparr>) n = Inl OverflowError"
      by (simp_all add: timedelta_def datetime_sub_def datetime_add_def acquisition_day_def)
    then show ?thesis by (simp add: cohort_point_def)
  qed
  with False show ?thesis by simp
next
  case True
  let ?day = "acquisition_day now n i"
  from True have t1: "timedelta (int i + n - 1) = Inr (int i + n - 1)"
    and t2: "timedelta n = Inr n"
    by (simp_all add: days_in_range_def timedelta_def)
  from True have s1: "datetime_sub (now i) (int i + n - 1) = Inr ((now i)\<lparr>ordinal := ?day\<rparr>)"
    by (simp add: days_in_range_def datetime_sub_def datetime_add_def acquisition_day_def)
  from True have s2: "datetime_add ((now i)\<lparr>ordinal := ?day\<rparr>) n
                        = Inr ((now i)\<lparr>ordinal := ?day + n\<rparr>)"
    by (simp add: days_in_range_def datetime_add_def)
  show ?thesis
  proof (cases "get_unique_user_ids e (strftime_ymd e ?day) ''backend-sign_up''")
    case (Inl err)
    with True show ?thesis
      by (simp add: cohort_point_def t1 t2 s1 s2)
  next
    case u: (Inr u)
    then have fin: "finite u" by (rule get_unique_user_ids_finite)
    show ?thesis
    proof (cases "get_unique_user_ids e (strftime_ymd e (?day + n)) ''root''")
      case (Inl err)
      with True u show ?thesis
        by (simp add: cohort_point_def t1 t2 s1 s2)
    next
      case (Inr a)
      with True u fin show ?thesis
        by (simp add: cohort_point_def t1 t2 s1 s2 truediv_def)
    qed
  qed
qed

lemma cohort_point_eq_Inr:
  "cohort_point e now n i = Inr (d, r, c) \<longleftrightarrow>
     days_in_range now n i \<and>
     (\<exists>u a. get_unique_user_ids e (strftime_ymd e (acquisition_day now n i)) ''backend-sign_up'' = Inr u \<and>
            get_unique_user_ids e (strftime_ymd e (acquisition_day now n i + n)) ''root'' = Inr a \<and>
            d = strftime_ymd e (acquisition_day now n i) \<and>
            c = card (a \<inter> u) \<and>
            r = (if u = {} then 0 else of_nat c / of_nat (card u)))"
  by (auto simp: cohort_point_unfold split: sum.splits)

lemma calculate_retention_eq_Inr:
  "calculate_retention e now n = Inr df \<longleftrightarrow>
     (\<exists>ps. for_each (cohort_point e now n) [1..<15] = Inr ps \<and>
           df = \<lparr>Date = rev (map fst ps),
                 Retention_Rate = rev (map (\<lambda>p. fst (snd p)) ps),
                 retention_count = rev (map (\<lambda>p. snd (snd p)) ps)\<rparr>)"
  by (auto simp: calculate_retention_def and_then_eq_Inr retention_loop_eq_Inr extend_def)

lemma calculate_retention_lengths:
  assumes "calculate_retention e now n = Inr df"
  shows "length (Date df) = 14" and "length (Retention_Rate df) = 14"
    and "length (retention_count df) = 14"
  using assms by (auto simp: calculate_retention_eq_Inr for_each_eq_Inr)

lemma calculate_retention_point:
  assumes "calculate_retention e now n = Inr df" and "1 \<le> i" and "i \<le> 14"
  shows "cohort_point e now n i =
           Inr (Date df ! (14 - i), Retention_Rate df ! (14 - i), retention_count df ! (14 - i))"
proof -
  from assms(1) obtain ps where ps: "for_each (cohort_point e now n) [1..<15] = Inr ps"
    and df: "df = \<lparr>Date = rev (map fst ps),
                 Retention_Rate = rev (map (\<lambda>p. fst (snd p)) ps),
                 retention_count = rev (map (\<lambda>p. snd (snd p)) ps)\<rparr>"
    by (auto simp: calculate_retention_eq_Inr)
  from ps have len: "length ps = 14"
    and at: "\<And>j. j < 14 \<Longrightarrow> cohort_point e now n ([1..<15] ! j) = Inr (ps ! j)"
    by (auto simp: for_each_eq_Inr)
  from assms(2,3) have j: "i - 1 < 14" by simp
  have "[1..<15] ! (i - 1) = i" using assms(2,3) by (simp add: nth_upt)
  with at [OF j] have cp: "cohort_point e now n i = Inr (ps ! (i - 1))" by simp
  have idx: "14 - Suc (14 - i) = i - 1" using assms(2,3) by arith
  have k: "14 - i < 14" using assms(2) by arith
  show ?thesis
    using cp len k idx by (simp add: df rev_nth)
qed

lemma calculate_retention_succeeds:
  assumes "\<And>i. 1 \<le> i \<Longrightarrow> i \<le> 14 \<Longrightarrow> \<exists>p. cohort_point e now n i = Inr p"
  shows "\<exists>df. calculate_retention e now n = Inr df"
proof -
  have "\<forall>j<14. \<exists>p. cohort_point e now n ([1..<15] ! j) = Inr p"
    using assms by (simp add: nth_upt)
  then obtain f where f: "\<forall>j<14. cohort_point e now n ([1..<15] ! j) = Inr (f j)"
    by metis
  then have "for_each (cohort_point e now n) [1..<15] = Inr (map f [0..<14])"
    by (simp add: for_each_eq_Inr)
  then show ?thesis by (auto simp: calculate_retention_eq_Inr)
qed

lemma for_each_eq_Inl:
  "for_each f xs = Inl err \<Longrightarrow> \<exists>x\<in>set xs. f x = Inl err"
proof (induction xs)
  case Nil
  then show ?case by simp
next
  case (Cons x xs)
  then show ?case
    by (cases "f x"; cases "for_each f xs") auto
qed

lemma for_each_cong:
  "(\<And>x. x \<in> set xs \<Longrightarrow> f x = g x) \<Longrightarrow> for_each f xs = for_each g xs"
  by (induction xs) simp_all

lemma retention_loop_for_each:
  "retention_loop e now n is acc =
     (case for_each (cohort_point e now n) is of
        Inl err \<Rightarrow> Inl err
      | Inr ps \<Rightarrow> Inr (extend acc ps))"
proof (induction "is" arbitrary: acc)
  case Nil
  then show ?case by (simp add: extend_def)
next
  case (Cons i rest)
  show ?case
  proof (cases "cohort_point e now n i")
    case (Inl err)
    then show ?thesis by simp
  next
    case (Inr p)
    then show ?thesis
      by (cases p; cases "for_each (cohort_point e now n) rest")
         (simp_all add: Cons.IH extend_def)
  qed
qed

lemma calculate_retention_eq_Inl:
  assumes "calculate_retention e now n = Inl err"
  shows "\<exists>i. 1 \<le> i \<and> i \<le> 14 \<and> cohort_point e now n i = Inl err"
proof -
  from assms have "for_each (cohort_point e now n) [1..<15] = Inl err"
    by (simp add: calculate_retention_def retention_loop_for_each split: sum.splits)
  from for_each_eq_Inl [OF this] show ?thesis by auto
qed

lemma get_unique_user_ids_eq_Inl:
  "get_unique_user_ids e d m = Inl err \<Longrightarrow> err = TransportError"
  by (auto simp: get_unique_user_ids_def split: option.splits)

lemma cohort_point_eq_Inl:
  "cohort_point e now n i = Inl err \<Longrightarrow> err = OverflowError \<or> err = TransportError"
  by (auto simp: cohort_point_unfold split: if_splits sum.splits
           dest: get_unique_user_ids_eq_Inl)

lemma get_unique_user_ids_answers:
  "search_terms e (unique_user_ids_body d m) \<noteq> None \<Longrightarrow> \<exists>u. get_unique_user_ids e d m = Inr u"
  by (auto simp: get_unique_user_ids_def)

lemma cohort_point_succeeds:
  assumes "days_in_range now n i" and "\<And>body. search_terms e body \<noteq> None"
  shows "\<exists>p. cohort_point e now n i = Inr p"
proof -
  obtain u where "get_unique_user_ids e (strftime_ymd e (acquisition_day now n i)) ''backend-sign_up'' = Inr u"
    using get_unique_user_ids_answers assms(2) by blast
  moreover obtain a where "get_unique_user_ids e (strftime_ymd e (acquisition_day now n i + n)) ''root'' = Inr a"
    using get_unique_user_ids_answers assms(2) by blast
  ultimately show ?thesis using assms(1) by (simp add: cohort_point_unfold)
qed

lemma days_in_range_same_day:
  assumes "ordinal (now i) = today" and "1 \<le> i" and "i \<le> 14"
    and "14 \<le> today" and "today \<le> 3652059"
    and "n + 13 < today" and "today - n \<le> 3652059"
  shows "days_in_range now n i"
  using assms unfolding days_in_range_def acquisition_day_def by simp

lemma upto_14_nth:
  assumes "k < 14"
  shows "[a..a + 13] ! k = a + int k"
  using assms by simp

lemma funnel_rows:
  "map (\<lambda>(k, (d, visitors, registered, sign_ups)).
                  \<lparr>date = (case series_at timestamps k of None \<Rightarrow> None | Some t \<Rightarrow> t),
                   all_visitor_count = visitors,
                   all_registered_count = registered,
                   all_sign_up_count = sign_ups,
                   rentention_1d = series_at series k\<rparr>)
       (zip [0..<length (map (\<lambda>bucket. (key_as_string bucket, userId_all bucket,
                                 userId_not_0 bucket, new_sign_up bucket)) buckets)]
          (map (\<lambda>bucket. (key_as_string bucket, userId_all bucket,
                                 userId_not_0 bucket, new_sign_up bucket)) buckets))
   = map (funnel_row_of buckets timestamps series) [0..<length buckets]"
  by (intro nth_equalityI) (simp_all add: funnel_row_of_def)

lemma parse_column_eq_Inr:
  "(case to_datetime e keys of None \<Rightarrow> Inl ValueError | Some column \<Rightarrow> Inr column) = Inr timestamps
     \<longleftrightarrow> to_datetime e keys = Some timestamps"
  by (cases "to_datetime e keys") simp_all

lemma calculate_funnel_eq_Inr:
  "calculate_funnel e now_funnel now = Inr rows \<longleftrightarrow>
     (\<exists>buckets retention timestamps.
        search_funnel e now_funnel = Inr buckets \<and>
        calculate_retention e now 1 = Inr retention \<and>
        buckets \<noteq> [] \<and>
        to_datetime e (map key_as_string buckets) = Some timestamps \<and>
        rows = map (funnel_row_of buckets timestamps (retention_count retention))
                 [0..<length buckets])"
  unfolding calculate_funnel_def Let_def funnel_rows
  by (auto simp: and_then_eq_Inr parse_column_eq_Inr comp_def split: if_splits)


lemma calculate_funnel_succeeds:
  assumes "search_funnel e now_funnel = Inr buckets" and "buckets \<noteq> []"
    and "calculate_retention e now 1 = Inr retention"
    and "to_datetime e (map key_as_string buckets) = Some timestamps"
  shows "calculate_funnel e now_funnel now =
           Inr (map (funnel_row_of buckets timestamps (retention_count retention))
                  [0..<length buckets])"
  unfolding calculate_funnel_eq_Inr using assms by blast

subsection \<open>The sample index, evaluated\<close>

lemma calculate_retention_unfold:
  "calculate_retention e now n =
     (case for_each (cohort_point e now n) [1..<15] of
        Inl err \<Rightarrow> Inl err
      | Inr ps \<Rightarrow>
          Inr \<lparr>Date = rev (map fst ps),
               Retention_Rate = rev (map (\<lambda>p. fst (snd p)) ps),
               retention_count = rev (map (\<lambda>p. snd (snd p)) ps)\<rparr>)"
  by (simp add: calculate_retention_def retention_loop_for_each extend_def
           split: sum.splits)

lemma first_point_raises:
  assumes "cohort_point e now n 1 = Inl err"
  shows "calculate_retention e now n = Inl err"
  using assms by (simp add: calculate_retention_unfold upt_conv_Cons)

lemma sample_users:
  assumes "search_terms e = sample_search_terms"
  shows "get_unique_user_ids e d m =
     Inr (if m = ''backend-sign_up'' \<and> d = ''2026-10-20'' then {1, 2}
          else if m = ''root'' \<and> d = ''2026-10-21'' then {2}
          else if m = ''backend-sign_up'' \<and> d = ''2026-11-01'' then {1, 2, 3}
          else if m = ''root'' \<and> d = ''2026-11-02'' then {2, 3, 4}
          else {})"
  by (simp add: get_unique_user_ids_def assms sample_search_terms_def
        unique_user_ids_body_def users_def)

lemma sample_points:
  assumes "strftime_ymd e = autumn_2026_ymd" and "search_terms e = sample_search_terms"
  shows "for_each (cohort_point e sample_now 1) [1..<15] =
           Inr [(''2026-11-02'', 0, 0), (''2026-11-01'', 2 / 3, 2), (''2026-10-31'', 0, 0),
                (''2026-10-30'', 0, 0), (''2026-10-29'', 0, 0), (''2026-10-28'', 0, 0),
                (''2026-10-27'', 0, 0), (''2026-10-26'', 0, 0), (''2026-10-25'', 0, 0),
                (''2026-10-24'', 0, 0), (''2026-10-23'', 0, 0), (''2026-10-22'', 0, 0),
                (''2026-10-21'', 0, 0), (''2026-10-20'', 1 / 2, 1)]"
  by (simp add: upt_conv_Cons cohort_point_unfold days_in_range_def acquisition_day_def
        sample_now_def sample_users [OF assms(2)] assms(1) autumn_2026_ymd_def two_digits_def)

lemma sample_retention:
  assumes "strftime_ymd e = autumn_2026_ymd" and "search_terms e = sample_search_terms"
  shows "calculate_retention e sample_now 1 = Inr sample_series"
  unfolding calculate_retention_unfold sample_points [OF assms]
  by (simp add: sample_series_def)

lemma sample_env_fields:
  "strftime_ymd sample_env = autumn_2026_ymd" "search_terms sample_env = sample_search_terms"
  "strftime_ymd sparse_env = autumn_2026_ymd" "search_terms sparse_env = sample_search_terms"
  by (simp_all add: sample_env_def sparse_env_def)

lemma sample_env_answers: "search_terms sample_env body \<noteq> None"
  by (simp add: sample_env_def sample_search_terms_def)

lemma sample_now_today: "ordinal (sample_now i) = 739923"
  by (simp add: sample_now_def)

lemma sample_env_retention: "calculate_retention sample_env sample_now 1 = Inr sample_series"
  by (rule sample_retention) (simp_all add: sample_env_fields)

lemma sparse_env_retention: "calculate_retention sparse_env sample_now 1 = Inr sample_series"
  by (rule sample_retention) (simp_all add: sample_env_fields)

lemma sample_search_funnel: "search_funnel sample_env sample_now_funnel = Inr sample_buckets"
  by (simp add: search_funnel_def search_funnel_query_def timedelta_def datetime_sub_def
        datetime_add_def sample_now_funnel_def sample_env_def)

lemma sparse_search_funnel:
  "search_funnel sparse_env sample_now_funnel = Inr (drop 11 sample_buckets)"
  by (simp add: search_funnel_def search_funnel_query_def timedelta_def datetime_sub_def
        datetime_add_def sample_now_funnel_def sample_env_def sparse_env_def)

lemma crossing_points:
  "for_each (cohort_point sample_env crossing_now 1) [1..<15] =
           Inr [(''2026-11-02'', 0, 0), (''2026-11-01'', 2 / 3, 2), (''2026-10-31'', 0, 0),
                (''2026-10-30'', 0, 0), (''2026-10-29'', 0, 0), (''2026-10-29'', 0, 0),
                (''2026-10-28'', 0, 0), (''2026-10-27'', 0, 0), (''2026-10-26'', 0, 0),
                (''2026-10-25'', 0, 0), (''2026-10-24'', 0, 0), (''2026-10-23'', 0, 0),
                (''2026-10-22'', 0, 0), (''2026-10-21'', 0, 0)]"
  by (simp add: upt_conv_Cons cohort_point_unfold days_in_range_def acquisition_day_def
        crossing_now_def sample_users [OF sample_env_fields(2)] sample_env_fields(1)
        autumn_2026_ymd_def two_digits_def)

lemma crossing_retention:
  "calculate_retention sample_env crossing_now 1 = Inr crossing_series"
  unfolding calculate_retention_unfold crossing_points
  by (simp add: crossing_series_def)

lemma sample_column:
  "to_datetime sample_env (map key_as_string sample_buckets)
     = Some (map Some (map snd sample_timestamps))"
  by (simp add: sample_env_def sample_to_datetime_def sample_buckets_def sample_timestamps_def)

lemma sparse_column:
  "to_datetime sparse_env (map key_as_string (drop 11 sample_buckets)) \<noteq> None"
  by (simp add: sparse_env_def sample_env_def sample_to_datetime_def sample_buckets_def
        sample_timestamps_def)

text \<open>
  Each of the two keys of the mixed index parses alone; the column of both does not,
  and the call raises.
\<close>

lemma mixed_keys_parse_alone:
  "to_datetime mixed_env [''2026-11-01T00:00:00.000+08:00''] \<noteq> None"
  "to_datetime mixed_env [''2026-11-02''] \<noteq> None"
  by (simp_all add: mixed_env_def sample_env_def sample_to_datetime_def sample_timestamps_def
        sample_days_def)

lemma mixed_column_raises:
  "calculate_funnel mixed_env sample_now_funnel sample_now = Inl ValueError"
proof -
  have r: "calculate_retention mixed_env sample_now 1 = Inr sample_series"
    by (rule sample_retention) (simp_all add: mixed_env_def sample_env_def)
  have f: "search_funnel mixed_env sample_now_funnel =
             Inr [\<lparr>key_as_string = ''2026-11-01T00:00:00.000+08:00'', userId_all = 162,
                    userId_not_0 = 66, new_sign_up = 3\<rparr>,
                  \<lparr>key_as_string = ''2026-11-02'', userId_all = 158,
                    userId_not_0 = 63, new_sign_up = 0\<rparr>]"
    by (simp add: search_funnel_def search_funnel_query_def timedelta_def datetime_sub_def
          datetime_add_def sample_now_funnel_def mixed_env_def sample_env_def)
  have p: "to_datetime mixed_env [''2026-11-01T00:00:00.000+08:00'', ''2026-11-02''] = None"
    by (simp add: mixed_env_def sample_env_def sample_to_datetime_def sample_timestamps_def
          sample_days_def)
  show ?thesis
    by (simp add: calculate_funnel_def r f p)
qed

section \<open>The claims\<close>

subsection \<open>C1: the window of the retention series\<close>

text \<open>
  Claim C1. For a positive \<open>interval_days\<close> the retention series has exactly 14 points
  in strictly ascending order of acquisition day: the point of offset \<open>i\<close> (from 1 to 14)
  has acquisition day \<open>today - (i + interval_days - 1)\<close>, is computed from the sign-ups
  of that day and the active users of the day \<open>interval_days\<close> later, and stands at
  position \<open>14 - i\<close>, so that the \<^verbatim>\<open>Date\<close> column is the text of the days from
  \<open>today - (interval_days + 13)\<close> to \<open>today - interval_days\<close>, earliest first: every
  entry is the text of a day before the day of each entry after it.

  This holds under three conditions. The 14 readings of the clock, one in each
  iteration (line 57), fall on one calendar day \<open>today\<close>; the earliest acquisition day
  \<open>today - (interval_days + 13)\<close> is not before 0001-01-01; and the index answers. Without
  the first the series can hold a day twice, without the second the subtraction on
  line 57 raises OverflowError (both shown at the end of this subsection), so the claim
  does not hold for every positive integer and every run.
\<close>

theorem retention_series_window:
  assumes "0 < n"
    and "\<And>i. 1 \<le> i \<Longrightarrow> i \<le> 14 \<Longrightarrow> ordinal (now i) = today"
    and "n + 13 < today" and "today \<le> 3652059"
    and "\<And>body. search_terms e body \<noteq> None"
  shows "\<exists>df. calculate_retention e now n = Inr df \<and>
           Date df = map (strftime_ymd e) [today - (n + 13)..today - n] \<and>
           length (Date df) = 14 \<and> length (Retention_Rate df) = 14 \<and>
           length (retention_count df) = 14 \<and>
           sorted_wrt (\<lambda>s t. \<exists>d d'. d < d' \<and> s = strftime_ymd e d \<and> t = strftime_ymd e d')
             (Date df) \<and>
           (\<forall>i. 1 \<le> i \<and> i \<le> 14 \<longrightarrow>
              (\<exists>u a. get_unique_user_ids e (strftime_ymd e (today - (int i + n - 1)))
                         ''backend-sign_up'' = Inr u \<and>
                     get_unique_user_ids e (strftime_ymd e (today - (int i + n - 1) + n))
                         ''root'' = Inr a \<and>
                     Date df ! (14 - i) = strftime_ymd e (today - (int i + n - 1)) \<and>
                     retention_count df ! (14 - i) = card (a \<inter> u)))"
proof -
  have range: "days_in_range now n i" if "1 \<le> i" "i \<le> 14" for i
    using assms(1,3,4) that by (intro days_in_range_same_day [OF assms(2)]) simp_all
  have "\<exists>p. cohort_point e now n i = Inr p" if "1 \<le> i" "i \<le> 14" for i
    using cohort_point_succeeds [OF range [OF that] assms(5)] .
  then obtain df where df: "calculate_retention e now n = Inr df"
    using calculate_retention_succeeds by blast
  note len = calculate_retention_lengths [OF df]
  have acq: "acquisition_day now n i = today - (int i + n - 1)" if "1 \<le> i" "i \<le> 14" for i
    using assms(2) [OF that] by (simp add: acquisition_day_def)
  have point: "\<exists>u a. get_unique_user_ids e (strftime_ymd e (today - (int i + n - 1)))
                         ''backend-sign_up'' = Inr u \<and>
                     get_unique_user_ids e (strftime_ymd e (today - (int i + n - 1) + n))
                         ''root'' = Inr a \<and>
                     Date df ! (14 - i) = strftime_ymd e (today - (int i + n - 1)) \<and>
                     retention_count df ! (14 - i) = card (a \<inter> u)"
    if "1 \<le> i" "i \<le> 14" for i
    using calculate_retention_point [OF df that] acq [OF that]
    by (auto simp: cohort_point_eq_Inr)
  have interval: "today - n = today - (n + 13) + 13" by simp
  have "Date df = map (strftime_ymd e) [today - (n + 13)..today - n]"
  proof (rule nth_equalityI)
    show "length (Date df) = length (map (strftime_ymd e) [today - (n + 13)..today - n])"
      by (simp add: len)
  next
    fix k assume "k < length (Date df)"
    then have k: "k < 14" by (simp add: len)
    define i where "i = 14 - k"
    with k have i: "1 \<le> i" "i \<le> 14" and ki: "k = 14 - i" by simp_all
    from point [OF i] have "Date df ! k = strftime_ymd e (today - (int i + n - 1))"
      by (auto simp: ki)
    also have "today - (int i + n - 1) = today - (n + 13) + int k"
      using i ki by simp
    also have "strftime_ymd e \<dots> = map (strftime_ymd e) [today - (n + 13)..today - n] ! k"
      using k unfolding interval by (simp add: upto_14_nth)
    finally show "Date df ! k = map (strftime_ymd e) [today - (n + 13)..today - n] ! k" .
  qed
  then have dates: "Date df = map (strftime_ymd e) [today - (n + 13)..today - n]" .
  have "sorted_wrt (\<lambda>d d'. \<exists>c c'. c < c' \<and> strftime_ymd e d = strftime_ymd e c \<and>
                                 strftime_ymd e d' = strftime_ymd e c')
          [today - (n + 13)..today - n]"
    by (rule sorted_wrt_mono_rel [OF _ sorted_wrt_upto]) blast
  then have ascending:
    "sorted_wrt (\<lambda>s t. \<exists>d d'. d < d' \<and> s = strftime_ymd e d \<and> t = strftime_ymd e d')
       (Date df)"
    by (simp add: dates sorted_wrt_map)
  show ?thesis
    using df dates len ascending point by blast
qed

text \<open>
  On the sample index, with an interval of one day: the series covers 2026-10-20 to
  2026-11-02.
\<close>

theorem retention_series_window_witness:
  "\<exists>df. calculate_retention sample_env sample_now 1 = Inr df \<and>
           Date df = map (strftime_ymd sample_env) [739923 - (1 + 13)..739923 - 1] \<and>
           length (Date df) = 14 \<and> length (Retention_Rate df) = 14 \<and>
           length (retention_count df) = 14 \<and>
           sorted_wrt (\<lambda>s t. \<exists>d d'. d < d' \<and> s = strftime_ymd sample_env d \<and>
                                  t = strftime_ymd sample_env d')
             (Date df) \<and>
           (\<forall>i. 1 \<le> i \<and> i \<le> 14 \<longrightarrow>
              (\<exists>u a. get_unique_user_ids sample_env
                         (strftime_ymd sample_env (739923 - (int i + 1 - 1)))
                         ''backend-sign_up'' = Inr u \<and>
                     get_unique_user_ids sample_env
                         (strftime_ymd sample_env (739923 - (int i + 1 - 1) + 1))
                         ''root'' = Inr a \<and>
                     Date df ! (14 - i) = strftime_ymd sample_env (739923 - (int i + 1 - 1)) \<and>
                     retention_count df ! (14 - i) = card (a \<inter> u)))"
  by (rule retention_series_window [where today = 739923])
     (simp_all add: sample_now_today sample_env_answers)

text \<open>
  Two inputs on which the series is not as the claim says. With the clock that passes
  midnight between the fifth and the sixth iteration, both iterations compute
  2026-10-29 and the series holds that day twice, at positions 8 and 9. With the
  clock at 2026-11-03 and an interval of a million days, the first iteration asks for
  a day before 0001-01-01 and the call raises.
\<close>

theorem retention_series_window_fails:
  "calculate_retention sample_env crossing_now 1 = Inr crossing_series \<and>
   Date crossing_series ! 8 = Date crossing_series ! 9 \<and>
   calculate_retention sample_env sample_now 1000000 = Inl OverflowError"
proof -
  have "Date crossing_series ! 8 = Date crossing_series ! 9"
    by (simp add: crossing_series_def)
  moreover have "calculate_retention sample_env sample_now 1000000 = Inl OverflowError"
    by (rule first_point_raises)
       (simp add: cohort_point_unfold days_in_range_def acquisition_day_def sample_now_def)
  ultimately show ?thesis using crossing_retention by simp
qed

subsection \<open>C2: retention count and retention rate of a point\<close>

text \<open>
  Claim C2. In a series that \<^verbatim>\<open>calculate_retention\<close> returns, the point of offset \<open>i\<close>
  has as its retention count the size of the intersection of the sign-up set of the
  acquisition day with the active set of the day \<open>interval_days\<close> later; the count is at
  most the size of the cohort; and for a cohort that is not empty the retention rate
  is the count divided by the size of the cohort, a number between 0 and 1.
\<close>

theorem retention_count_and_rate:
  assumes "calculate_retention e now n = Inr df" and "1 \<le> i" and "i \<le> 14"
  shows "\<exists>u a. get_unique_user_ids e (strftime_ymd e (acquisition_day now n i))
                   ''backend-sign_up'' = Inr u \<and>
               get_unique_user_ids e (strftime_ymd e (acquisition_day now n i + n))
                   ''root'' = Inr a \<and>
               retention_count df ! (14 - i) = card (a \<inter> u) \<and>
               retention_count df ! (14 - i) \<le> card u \<and>
               (0 < card u \<longrightarrow>
                  Retention_Rate df ! (14 - i)
                    = of_nat (retention_count df ! (14 - i)) / of_nat (card u) \<and>
                  0 \<le> Retention_Rate df ! (14 - i) \<and> Retention_Rate df ! (14 - i) \<le> 1)"
proof -
  from calculate_retention_point [OF assms]
  obtain u a where u: "get_unique_user_ids e (strftime_ymd e (acquisition_day now n i))
                   ''backend-sign_up'' = Inr u"
    and a: "get_unique_user_ids e (strftime_ymd e (acquisition_day now n i + n)) ''root'' = Inr a"
    and c: "retention_count df ! (14 - i) = card (a \<inter> u)"
    and r: "Retention_Rate df ! (14 - i) =
              (if u = {} then 0 else of_nat (retention_count df ! (14 - i)) / of_nat (card u))"
    by (auto simp: cohort_point_eq_Inr)
  have fin: "finite u" using u by (rule get_unique_user_ids_finite)
  then have le: "card (a \<inter> u) \<le> card u"
    by (simp add: card_mono)
  have rate: "Retention_Rate df ! (14 - i) = of_nat (card (a \<inter> u)) / of_nat (card u) \<and>
        0 \<le> Retention_Rate df ! (14 - i) \<and> Retention_Rate df ! (14 - i) \<le> 1"
    if "0 < card u"
  proof -
    from that have "u \<noteq> {}" by auto
    with r c have eq: "Retention_Rate df ! (14 - i) = of_nat (card (a \<inter> u)) / of_nat (card u)"
      by simp
    moreover have "(of_nat (card (a \<inter> u)) :: rat) / of_nat (card u) \<le> 1"
      using le that by (simp add: divide_le_eq_1)
    ultimately show ?thesis by simp
  qed
  show ?thesis
    using u a c le rate by (intro exI [of _ u] exI [of _ a]) simp
qed

text \<open>
  On the sample index, offset 2 is the cohort of 2026-11-01: three sign-ups, two of
  them active the day after.
\<close>

theorem retention_count_and_rate_witness:
  "\<exists>u a. get_unique_user_ids sample_env
             (strftime_ymd sample_env (acquisition_day sample_now 1 2)) ''backend-sign_up'' = Inr u \<and>
         get_unique_user_ids sample_env
             (strftime_ymd sample_env (acquisition_day sample_now 1 2 + 1)) ''root'' = Inr a \<and>
         retention_count sample_series ! (14 - 2) = card (a \<inter> u) \<and>
         retention_count sample_series ! (14 - 2) \<le> card u \<and>
         (0 < card u \<longrightarrow>
            Retention_Rate sample_series ! (14 - 2)
              = of_nat (retention_count sample_series ! (14 - 2)) / of_nat (card u) \<and>
            0 \<le> Retention_Rate sample_series ! (14 - 2) \<and>
            Retention_Rate sample_series ! (14 - 2) \<le> 1)"
  by (rule retention_count_and_rate [OF sample_env_retention]) simp_all

subsection \<open>C3: an empty cohort\<close>

text \<open>
  Claim C3. \<^verbatim>\<open>calculate_retention\<close> never raises ZeroDivisionError. In a series it returns,
  a point whose acquisition-day cohort is empty has retention rate 0 and retention
  count 0. And it does return a series whenever the days it computes are days of the
  calendar and the index answers, whatever sets the index answers with, empty ones
  included.
\<close>

theorem empty_cohort_is_zero:
  "calculate_retention e now n \<noteq> Inl ZeroDivisionError \<and>
   (\<forall>df i. calculate_retention e now n = Inr df \<and> 1 \<le> i \<and> i \<le> 14 \<and>
       get_unique_user_ids e (strftime_ymd e (acquisition_day now n i)) ''backend-sign_up'' = Inr {}
       \<longrightarrow> Retention_Rate df ! (14 - i) = 0 \<and> retention_count df ! (14 - i) = 0) \<and>
   ((\<forall>i. 1 \<le> i \<and> i \<le> 14 \<longrightarrow> days_in_range now n i) \<and>
    (\<forall>body. search_terms e body \<noteq> None)
       \<longrightarrow> (\<exists>df. calculate_retention e now n = Inr df))"
proof (intro conjI allI impI)
  show "calculate_retention e now n \<noteq> Inl ZeroDivisionError"
  proof
    assume "calculate_retention e now n = Inl ZeroDivisionError"
    from calculate_retention_eq_Inl [OF this] cohort_point_eq_Inl
    show False by blast
  qed
next
  fix df i
  assume h: "calculate_retention e now n = Inr df \<and> 1 \<le> i \<and> i \<le> 14 \<and>
       get_unique_user_ids e (strftime_ymd e (acquisition_day now n i)) ''backend-sign_up'' = Inr {}"
  then have "cohort_point e now n i =
           Inr (Date df ! (14 - i), Retention_Rate df ! (14 - i), retention_count df ! (14 - i))"
    by (intro calculate_retention_point) simp_all
  with h show "Retention_Rate df ! (14 - i) = 0" and "retention_count df ! (14 - i) = 0"
    by (auto simp: cohort_point_eq_Inr)
next
  assume h: "(\<forall>i. 1 \<le> i \<and> i \<le> 14 \<longrightarrow> days_in_range now n i) \<and>
    (\<forall>body. search_terms e body \<noteq> None)"
  then have "\<exists>p. cohort_point e now n i = Inr p" if "1 \<le> i" "i \<le> 14" for i
    using that by (intro cohort_point_succeeds) simp_all
  then show "\<exists>df. calculate_retention e now n = Inr df"
    by (rule calculate_retention_succeeds)
qed

text \<open>
  On the sample index nobody signed up on 2026-11-02, the cohort of offset 1.
\<close>

theorem empty_cohort_is_zero_witness:
  "calculate_retention sample_env sample_now 1 \<noteq> Inl ZeroDivisionError \<and>
   Retention_Rate sample_series ! (14 - 1) = 0 \<and>
   retention_count sample_series ! (14 - 1) = 0 \<and>
   (\<exists>df. calculate_retention sample_env sample_now 1 = Inr df)"
proof -
  have empty: "get_unique_user_ids sample_env
                 (strftime_ymd sample_env (acquisition_day sample_now 1 1)) ''backend-sign_up''
               = Inr {}"
    by (simp add: sample_users sample_env_fields acquisition_day_def sample_now_def
          autumn_2026_ymd_def two_digits_def)
  have range: "\<forall>i. 1 \<le> i \<and> i \<le> 14 \<longrightarrow> days_in_range sample_now 1 i"
    by (simp add: days_in_range_def acquisition_day_def sample_now_def)
  have answers: "\<forall>body. search_terms sample_env body \<noteq> None"
    by (simp add: sample_env_answers)
  note fact = empty_cohort_is_zero [of sample_env sample_now 1]
  from fact have never: "calculate_retention sample_env sample_now 1 \<noteq> Inl ZeroDivisionError"
    by (rule conjunct1)
  from fact [THEN conjunct2, THEN conjunct1, rule_format, of sample_series 1]
  have zero: "Retention_Rate sample_series ! (14 - 1) = 0 \<and>
              retention_count sample_series ! (14 - 1) = 0"
    using sample_env_retention empty by simp
  from fact [THEN conjunct2, THEN conjunct2, rule_format]
  have returns: "\<exists>df. calculate_retention sample_env sample_now 1 = Inr df"
    using range answers by simp
  from never zero returns show ?thesis by simp
qed

subsection \<open>C4: fourteen funnel rows\<close>



subsection \<open>C5: the series is a function of its inputs\<close>

text \<open>
  Claim C5. Two calls of \<^verbatim>\<open>calculate_retention\<close> with the same \<open>interval_days\<close>, clocks that
  read the same calendar day in every iteration, and an index that answers each of the
  queried pairs of day and event with the same set of users, return the same result.
  Neither the time of day of the readings nor the order or the document counts of the
  buckets matter.
\<close>

theorem retention_deterministic:
  assumes "\<And>i. 1 \<le> i \<Longrightarrow> i \<le> 14 \<Longrightarrow> ordinal (now i) = ordinal (now' i)"
    and "strftime_ymd e = strftime_ymd e'"
    and "\<And>i. 1 \<le> i \<Longrightarrow> i \<le> 14 \<Longrightarrow>
           get_unique_user_ids e (strftime_ymd e (acquisition_day now n i)) ''backend-sign_up''
             = get_unique_user_ids e' (strftime_ymd e (acquisition_day now n i)) ''backend-sign_up''"
    and "\<And>i. 1 \<le> i \<Longrightarrow> i \<le> 14 \<Longrightarrow>
           get_unique_user_ids e (strftime_ymd e (acquisition_day now n i + n)) ''root''
             = get_unique_user_ids e' (strftime_ymd e (acquisition_day now n i + n)) ''root''"
  shows "calculate_retention e now n = calculate_retention e' now' n"
proof -
  have "cohort_point e now n i = cohort_point e' now' n i" if "i \<in> set [1..<15]" for i
  proof -
    from that have i: "1 \<le> i" "i \<le> 14" by simp_all
    have acq: "acquisition_day now' n i = acquisition_day now n i"
      using assms(1) [OF i] by (simp add: acquisition_day_def)
    then have rng: "days_in_range now' n i = days_in_range now n i"
      by (simp add: days_in_range_def)
    have fmt: "strftime_ymd e' = strftime_ymd e" using assms(2) by simp
    show ?thesis
      unfolding cohort_point_unfold acq rng fmt assms(3) [OF i] assms(4) [OF i]
      by (rule refl)
  qed
  then have "for_each (cohort_point e now n) [1..<15] = for_each (cohort_point e' now' n) [1..<15]"
    by (rule for_each_cong)
  then show ?thesis
    by (simp add: calculate_retention_def retention_loop_for_each)
qed

text \<open>
  The sample index against the one that lists its buckets backwards, read by a clock
  later on the same day.
\<close>

theorem retention_deterministic_witness:
  "calculate_retention sample_env sample_now 1 = calculate_retention reversed_env later_now 1"
proof (rule retention_deterministic)
  fix i :: nat
  show "ordinal (sample_now i) = ordinal (later_now i)"
    by (simp add: sample_now_def later_now_def)
  have same: "get_unique_user_ids sample_env d m = get_unique_user_ids reversed_env d m" for d m
    by (simp add: get_unique_user_ids_def sample_env_def reversed_env_def
          sample_search_terms_def)
  show "get_unique_user_ids sample_env
          (strftime_ymd sample_env (acquisition_day sample_now 1 i)) ''backend-sign_up''
        = get_unique_user_ids reversed_env
          (strftime_ymd sample_env (acquisition_day sample_now 1 i)) ''backend-sign_up''"
    by (rule same)
  show "get_unique_user_ids sample_env
          (strftime_ymd sample_env (acquisition_day sample_now 1 i + 1)) ''root''
        = get_unique_user_ids reversed_env
          (strftime_ymd sample_env (acquisition_day sample_now 1 i + 1)) ''root''"
    by (rule same)
next
  show "strftime_ymd sample_env = strftime_ymd reversed_env"
    by (simp add: sample_env_def reversed_env_def)
qed

subsection \<open>C6: the request of the per-day user query\<close>

text \<open>
  Claim C6. For every day and event name, \<^verbatim>\<open>get_unique_user_ids\<close> sends one request whose
  time range runs from \<open>day\<close> 00:00:00 (included) to \<open>day\<close> 23:59:59 (excluded) in the zone
  +08:00, which filters on the event name and asks for at most 10000 term buckets, and
  it returns the set of the keys of the buckets of the response.
\<close>

theorem unique_user_ids_request:
  "\<exists>body. timestamp_gte body = day @ ''T00:00:00'' \<and>
          timestamp_lt body = day @ ''T23:59:59'' \<and>
          timestamp_time_zone body = ''+08:00'' \<and>
          message_name_keyword body = message_name \<and>
          terms_size body = 10000 \<and>
          get_unique_user_ids e day message_name =
            (case search_terms e body of
               None \<Rightarrow> Inl TransportError
             | Some response \<Rightarrow> Inr (key ` set response))"
  by (rule exI [of _ "unique_user_ids_body day message_name"])
     (simp add: unique_user_ids_body_def get_unique_user_ids_def split: option.splits)

subsection \<open>C7: the window of the funnel query\<close>

text \<open>
  Claim C7. The range of the histogram query of \<^verbatim>\<open>search_funnel\<close> is closed on both sides;
  its upper bound is the reading of the clock moved back by one day, its lower bound
  is 13 days before the upper bound, so that it touches 14 calendar days, the last one
  yesterday; the buckets are calendar days in the zone +08:00. Stated for a clock that
  reads a day from 0001-01-15 on.
\<close>

theorem funnel_query_window:
  assumes "15 \<le> ordinal now" and "ordinal now \<le> 3652059"
  shows "\<exists>query. search_funnel_query now = Inr query \<and>
           range_lte query = now\<lparr>ordinal := ordinal now - 1\<rparr> \<and>
           range_gte query = (range_lte query)\<lparr>ordinal := ordinal (range_lte query) - 13\<rparr> \<and>
           length [ordinal (range_gte query)..ordinal (range_lte query)] = 14 \<and>
           calendar_interval query = ''day'' \<and>
           histogram_time_zone query = ''+08:00'' \<and>
           search_funnel e now =
             (case search_histogram e query of
                None \<Rightarrow> Inl TransportError
              | Some response \<Rightarrow> Inr response)"
  using assms
  by (simp add: search_funnel_def search_funnel_query_def timedelta_def datetime_sub_def
        datetime_add_def Let_def)

text \<open>
  For the reading 2026-11-03 00:00:00.
\<close>

theorem funnel_query_window_witness:
  "\<exists>query. search_funnel_query sample_now_funnel = Inr query \<and>
           range_lte query = sample_now_funnel\<lparr>ordinal := ordinal sample_now_funnel - 1\<rparr> \<and>
           range_gte query = (range_lte query)\<lparr>ordinal := ordinal (range_lte query) - 13\<rparr> \<and>
           length [ordinal (range_gte query)..ordinal (range_lte query)] = 14 \<and>
           calendar_interval query = ''day'' \<and>
           histogram_time_zone query = ''+08:00'' \<and>
           search_funnel sample_env sample_now_funnel =
             (case search_histogram sample_env query of
                None \<Rightarrow> Inl TransportError
              | Some response \<Rightarrow> Inr response)"
  by (rule funnel_query_window) (simp_all add: sample_now_funnel_def)

subsection \<open>C8: the three counts are passed through\<close>

text \<open>
  Claim C8. In the rows that \<^verbatim>\<open>calculate_funnel\<close> returns, the visitor, registered and
  sign-up counts of row \<open>k\<close> are the three values of bucket \<open>k\<close> of the histogram,
  unchanged. Nothing is assumed of the values, so a bucket with more registered
  visitors than visitors appears as it came.
\<close>

theorem funnel_counts_verbatim:
  assumes "calculate_funnel e now_funnel now = Inr rows"
  shows "\<exists>buckets. search_funnel e now_funnel = Inr buckets \<and> length rows = length buckets \<and>
           (\<forall>k<length buckets.
              all_visitor_count (rows ! k) = userId_all (buckets ! k) \<and>
              all_registered_count (rows ! k) = userId_not_0 (buckets ! k) \<and>
              all_sign_up_count (rows ! k) = new_sign_up (buckets ! k))"
  using assms unfolding calculate_funnel_eq_Inr
  by (auto simp: funnel_row_of_def)

text \<open>
  On the sample index the bucket of 2026-10-25 has 40 visitors and 41 registered
  visitors; row 5 shows both numbers.
\<close>

theorem funnel_counts_verbatim_witness:
  "\<exists>rows. calculate_funnel sample_env sample_now_funnel sample_now = Inr rows \<and>
          length rows = 14 \<and>
          all_visitor_count (rows ! 5) = 40 \<and>
          all_registered_count (rows ! 5) = 41 \<and>
          all_sign_up_count (rows ! 12) = 3"
proof -
  have "sample_buckets \<noteq> []" by (simp add: sample_buckets_def)
  from calculate_funnel_succeeds [OF sample_search_funnel this sample_env_retention
      sample_column]
  obtain rows where rows: "calculate_funnel sample_env sample_now_funnel sample_now = Inr rows"
    by blast
  from funnel_counts_verbatim [OF rows]
  have len: "length rows = length sample_buckets"
    and same: "\<And>k. k < length sample_buckets \<Longrightarrow>
              all_visitor_count (rows ! k) = userId_all (sample_buckets ! k) \<and>
              all_registered_count (rows ! k) = userId_not_0 (sample_buckets ! k) \<and>
              all_sign_up_count (rows ! k) = new_sign_up (sample_buckets ! k)"
    by (auto simp: sample_search_funnel)
  have n: "length sample_buckets = 14" by (simp add: sample_buckets_def)
  have "all_visitor_count (rows ! 5) = 40" "all_registered_count (rows ! 5) = 41"
    "all_sign_up_count (rows ! 12) = 3"
    using same [of 5] same [of 12] by (simp_all add: sample_buckets_def)
  with rows len n show ?thesis by simp
qed

subsection \<open>C9: the join is by position\<close>

text \<open>
  Claim C9. When the histogram returns \<open>N\<close> buckets with \<open>0 < N < 14\<close> (and \<^verbatim>\<open>pd.to_datetime\<close>
  accepts the column of their keys), \<^verbatim>\<open>calculate_funnel\<close> returns \<open>N\<close> rows without
  raising, and their retention counts are the first \<open>N\<close> entries of the retention-count
  column of the 14-point series for interval 1, whatever days the buckets stand for.
\<close>

theorem funnel_join_positional:
  assumes "search_funnel e now_funnel = Inr buckets"
    and "0 < length buckets" and "length buckets < 14"
    and "calculate_retention e now 1 = Inr retention"
    and "to_datetime e (map key_as_string buckets) \<noteq> None"
  shows "\<exists>rows. calculate_funnel e now_funnel now = Inr rows \<and>
           length rows = length buckets \<and>
           map rentention_1d rows = map Some (take (length buckets) (retention_count retention))"
proof -
  from assms(2) have ne: "buckets \<noteq> []" by auto
  from assms(5) obtain timestamps
    where "to_datetime e (map key_as_string buckets) = Some timestamps" by auto
  note rows = calculate_funnel_succeeds [OF assms(1) ne assms(4) this]
  have len: "length (retention_count retention) = 14"
    using assms(4) by (rule calculate_retention_lengths)
  have "map rentention_1d (map (funnel_row_of buckets timestamps (retention_count retention))
                    [0..<length buckets])
        = map Some (take (length buckets) (retention_count retention))"
    using assms(3) len
    by (intro nth_equalityI) (simp_all add: funnel_row_of_def series_at_def)
  with rows show ?thesis by simp
qed

text \<open>
  On the index whose histogram holds 2026-10-31 to 2026-11-02 only, the three rows
  take the retention counts of 2026-10-20 to 2026-10-22.
\<close>

theorem funnel_join_positional_witness:
  "\<exists>rows. calculate_funnel sparse_env sample_now_funnel sample_now = Inr rows \<and>
          length rows = length (drop 11 sample_buckets) \<and>
          map rentention_1d rows =
            map Some (take (length (drop 11 sample_buckets)) (retention_count sample_series))"
  by (rule funnel_join_positional [OF sparse_search_funnel _ _ sparse_env_retention
        sparse_column])
     (simp_all add: sample_buckets_def)

subsection \<open>C10: an interval that is not positive\<close>

text \<open>
  Claim C10. \<^verbatim>\<open>calculate_retention\<close> does not check \<open>interval_days\<close>. For zero or a negative
  interval it returns a 14-point series in which the point of offset \<open>i\<close> is computed
  from the sign-ups of \<open>day = today - (i + interval_days - 1)\<close> and the active users of
  \<open>next_day = day + interval_days\<close>, a day not after \<open>day\<close> (the same day for interval 0).

  This holds when the 14 readings of the clock fall on one day \<open>today\<close>, not before
  0001-01-14, the index answers, and the latest acquisition day \<open>today - interval_days\<close>
  is not after 9999-12-31. For a more negative interval the subtraction on line 57
  raises OverflowError (shown at the end of this subsection), so the claim does
  not hold for every negative integer.
\<close>

theorem retention_nonpositive_interval:
  assumes "n \<le> 0"
    and "\<And>i. 1 \<le> i \<Longrightarrow> i \<le> 14 \<Longrightarrow> ordinal (now i) = today"
    and "14 \<le> today" and "today - n \<le> 3652059"
    and "\<And>body. search_terms e body \<noteq> None"
  shows "\<exists>df. calculate_retention e now n = Inr df \<and>
           length (Date df) = 14 \<and> length (Retention_Rate df) = 14 \<and>
           length (retention_count df) = 14 \<and>
           (\<forall>i. 1 \<le> i \<and> i \<le> 14 \<longrightarrow>
              (\<exists>day next_day u a.
                 day = today - (int i + n - 1) \<and> next_day = day + n \<and> next_day \<le> day \<and>
                 get_unique_user_ids e (strftime_ymd e day) ''backend-sign_up'' = Inr u \<and>
                 get_unique_user_ids e (strftime_ymd e next_day) ''root'' = Inr a \<and>
                 Date df ! (14 - i) = strftime_ymd e day \<and>
                 retention_count df ! (14 - i) = card (a \<inter> u)))"
proof -
  have range: "days_in_range now n i" if "1 \<le> i" "i \<le> 14" for i
    using assms(1,3,4) that by (intro days_in_range_same_day [OF assms(2)]) simp_all
  have "\<exists>p. cohort_point e now n i = Inr p" if "1 \<le> i" "i \<le> 14" for i
    using cohort_point_succeeds [OF range [OF that] assms(5)] .
  then obtain df where df: "calculate_retention e now n = Inr df"
    using calculate_retention_succeeds by blast
  note len = calculate_retention_lengths [OF df]
  have acq: "acquisition_day now n i = today - (int i + n - 1)" if "1 \<le> i" "i \<le> 14" for i
    using assms(2) [OF that] by (simp add: acquisition_day_def)
  have point: "\<exists>day next_day u a.
                 day = today - (int i + n - 1) \<and> next_day = day + n \<and> next_day \<le> day \<and>
                 get_unique_user_ids e (strftime_ymd e day) ''backend-sign_up'' = Inr u \<and>
                 get_unique_user_ids e (strftime_ymd e next_day) ''root'' = Inr a \<and>
                 Date df ! (14 - i) = strftime_ymd e day \<and>
                 retention_count df ! (14 - i) = card (a \<inter> u)"
    if "1 \<le> i" "i \<le> 14" for i
    using calculate_retention_point [OF df that] acq [OF that] assms(1)
    by (auto simp: cohort_point_eq_Inr)
  show ?thesis
    using df len point by blast
qed

text \<open>
  On the sample index, with interval 0.
\<close>

theorem retention_nonpositive_interval_witness:
  "\<exists>df. calculate_retention sample_env sample_now 0 = Inr df \<and>
           length (Date df) = 14 \<and> length (Retention_Rate df) = 14 \<and>
           length (retention_count df) = 14 \<and>
           (\<forall>i. 1 \<le> i \<and> i \<le> 14 \<longrightarrow>
              (\<exists>day next_day u a.
                 day = 739923 - (int i + 0 - 1) \<and> next_day = day + 0 \<and> next_day \<le> day \<and>
                 get_unique_user_ids sample_env (strftime_ymd sample_env day)
                    ''backend-sign_up'' = Inr u \<and>
                 get_unique_user_ids sample_env (strftime_ymd sample_env next_day)
                    ''root'' = Inr a \<and>
                 Date df ! (14 - i) = strftime_ymd sample_env day \<and>
                 retention_count df ! (14 - i) = card (a \<inter> u)))"
  by (rule retention_nonpositive_interval [where today = 739923])
     (simp_all add: sample_now_today sample_env_answers)

text \<open>
  With the clock at 2026-11-03 and an interval of minus four million days, the first
  iteration asks for a day after 9999-12-31 and the call raises.
\<close>

theorem retention_interval_too_negative:
  "calculate_retention sample_env sample_now (- 4000000) = Inl OverflowError"
  by (rule first_point_raises)
     (simp add: cohort_point_unfold days_in_range_def acquisition_day_def sample_now_def)

end
